theory Spec2Isabelle
  imports Main
begin

section \<open>Python string primitives used by the analyzer\<close>

text \<open>
  A Python \<open>str\<close> is modelled as a \<open>string\<close>, a list of 8-bit characters read as the
  code points 0..255.  On that range \<open>str.lower\<close> adds 32 to the letters A..Z and to
  the Latin-1 capitals 192..222 (the multiplication sign 215 apart) and leaves every
  other character alone, and \<open>str.isspace\<close> holds of 9..13, 28..32, 133 and 160.
\<close>

definition lower_char :: "char \<Rightarrow> char" where
  "lower_char c =
     (let n = (of_char c :: nat)
      in if (65 \<le> n \<and> n \<le> 90) \<or> (192 \<le> n \<and> n \<le> 222 \<and> n \<noteq> 215)
         then char_of (n + 32) else c)"

definition lower :: "string \<Rightarrow> string" where
  "lower s = map lower_char s"

definition isspace :: "char \<Rightarrow> bool" where
  "isspace c =
     (let n = (of_char c :: nat)
      in (9 \<le> n \<and> n \<le> 13) \<or> (28 \<le> n \<and> n \<le> 32) \<or> n = 133 \<or> n = 160)"

text \<open>\<open>s.startswith(p)\<close>.\<close>

fun startswith :: "string \<Rightarrow> string \<Rightarrow> bool" where
  "startswith s [] = True"
| "startswith [] (p # ps) = False"
| "startswith (c # cs) (p # ps) = (c = p \<and> startswith cs ps)"

text \<open>\<open>kw in s\<close>: the keyword occurs in \<open>s\<close> as a contiguous block.\<close>

fun contains :: "string \<Rightarrow> string \<Rightarrow> bool" where
  "contains kw [] = (kw = [])"
| "contains kw (c # cs) = (startswith (c # cs) kw \<or> contains kw cs)"

text \<open>\<open>s.strip()\<close>: white space removed at both ends.\<close>

definition strip :: "string \<Rightarrow> string" where
  "strip s = rev (dropWhile isspace (rev (dropWhile isspace s)))"

text \<open>
  \<open>s.split(sep)\<close> for a one-character separator is \<open>split_by (\<lambda>c. c = sep) s\<close>: the
  pieces between the separators, empty pieces included, so the result is never empty.
  \<open>s.split()\<close> cuts at white space and drops the empty pieces.
\<close>

fun split_by :: "(char \<Rightarrow> bool) \<Rightarrow> string \<Rightarrow> string list" where
  "split_by sep [] = [[]]"
| "split_by sep (c # cs) =
     (if sep c then [] # split_by sep cs
      else (case split_by sep cs of
              [] \<Rightarrow> [[c]]
            | w # ws \<Rightarrow> (c # w) # ws))"

definition split_on :: "char \<Rightarrow> string \<Rightarrow> string list" where
  "split_on sep s = split_by (\<lambda>c. c = sep) s"

definition split_ws :: "string \<Rightarrow> string list" where
  "split_ws s = filter (\<lambda>w. w \<noteq> []) (split_by isspace s)"

section \<open>Permission classifier\<close>

text \<open>\<open>Analyzer._categorize_permission\<close>: an if/elif chain over the lower-cased name.\<close>

definition categorize_permission :: "string \<Rightarrow> string" where
  "categorize_permission perm_name =
     (let perm_lower = lower perm_name
      in if contains ''location'' perm_lower \<or> contains ''gps'' perm_lower then ''Location''
         else if contains ''camera'' perm_lower then ''Camera''
         else if contains ''contact'' perm_lower \<or> contains ''phone'' perm_lower then ''Contacts''
         else if contains ''storage'' perm_lower \<or> contains ''read_external'' perm_lower
                 \<or> contains ''write_external'' perm_lower then ''Storage''
         else if contains ''internet'' perm_lower \<or> contains ''network'' perm_lower then ''Network''
         else if contains ''sms'' perm_lower \<or> contains ''call'' perm_lower then ''Communication''
         else ''Other'')"

text \<open>\<open>Analyzer._assess_risk\<close>.\<close>

definition high_risk_perms :: "string list" where
  "high_risk_perms =
     [''location'', ''camera'', ''microphone'', ''contacts'', ''sms'', ''phone'', ''call'']"

definition assess_risk :: "string \<Rightarrow> string" where
  "assess_risk perm_name =
     (let perm_lower = lower perm_name
      in if list_ex (\<lambda>risk. contains risk perm_lower) high_risk_perms then ''high''
         else if contains ''storage'' perm_lower \<or> contains ''internet'' perm_lower then ''medium''
         else ''low'')"

section \<open>Data model\<close>

text \<open>
  The dataclasses of \<open>models.py\<close>.  \<open>AppMetadata.category\<close> is the field
  \<open>app_category\<close> here, since \<open>Permission\<close> has a field \<open>category\<close> too.  The
  \<open>patterns\<close> dictionary has the three keys of \<open>_identify_patterns\<close>; its
  \<open>categories\<close> entry is a dictionary in insertion order, an association list with
  one pair per key.
\<close>

record Permission =
  name :: string
  category :: string
  risk_level :: string
  description :: "string option"

record AppMetadata =
  package_name :: string
  app_name :: string
  version :: string
  app_category :: string
  developer :: "string option"
  min_sdk :: "string option"
  target_sdk :: "string option"

record Patterns =
  total_count :: nat
  categories :: "(string \<times> nat) list"
  high_risk_count :: nat

record AnalysisResult =
  app_id :: string
  platform :: string
  permissions :: "Permission list"
  metadata :: AppMetadata
  over_permissions :: "string list"
  patterns :: Patterns

text \<open>The exceptions that can leave the analyzer.\<close>

datatype error = FileNotFoundError | ValueError | ParseError | IndexError

text \<open>\<open>xs[i]\<close> raises \<open>IndexError\<close> out of range.\<close>

definition index :: "'a list \<Rightarrow> nat \<Rightarrow> error + 'a" where
  "index xs i = (if i < length xs then Inr (xs ! i) else Inl IndexError)"

section \<open>The collaborators: external tool, XML parser, file system\<close>

text \<open>
  \<open>subprocess.run\<close> of the badging tool either raises \<open>FileNotFoundError\<close> (no such
  executable), raises \<open>TimeoutExpired\<close>, or completes with a return code and its
  standard output.
\<close>

datatype tool_outcome = ToolNotFound | ToolTimeout | Completed int string

text \<open>An element tree: tag, attributes, children in document order.\<close>

datatype element = Element string "(string \<times> string) list" "element list"

text \<open>
  The file \<open>app_path / "AndroidManifest.xml"\<close>: it does not exist, or it exists and
  \<open>ET.parse\<close> raises, or it exists and parses to a tree with the given root.
\<close>

datatype manifest_file = Absent | Unparsable | Parsed element

text \<open>
  What one call of \<open>analyze\<close> observes of its path and of the world around it: the
  results of the \<open>pathlib\<close> queries on \<open>app_path\<close>, of the two tool runs, and of
  the look-ups of the manifest and of \<open>Info.plist\<close> under the path.
\<close>

record app_env =
  path_exists :: bool
  path_is_dir :: bool
  path_str :: string
  path_name :: string
  path_suffix :: string
  path_stem :: string
  aapt_badging :: tool_outcome
  aapt_permissions :: tool_outcome
  manifest :: manifest_file
  info_plist_exists :: bool

text \<open>\<open>elem.get(key, default)\<close>.\<close>

fun element_get :: "element \<Rightarrow> string \<Rightarrow> string \<Rightarrow> string" where
  "element_get (Element tg attrs children) key dflt =
     (case map_of attrs key of None \<Rightarrow> dflt | Some v \<Rightarrow> v)"

fun tag :: "element \<Rightarrow> string" where
  "tag (Element tg attrs children) = tg"

text \<open>All proper descendants of an element, in document order.\<close>

fun descendants :: "element \<Rightarrow> element list" where
  "descendants (Element tg attrs children) =
     concat (map (\<lambda>c. c # descendants c) children)"

text \<open>\<open>root.findall(".//tg")\<close>.\<close>

definition findall :: "element \<Rightarrow> string \<Rightarrow> element list" where
  "findall root tg = filter (\<lambda>e. tag e = tg) (descendants root)"

section \<open>Metadata extraction\<close>

definition newline :: char where
  "newline = CHR 0x0A"

definition unknown_metadata :: AppMetadata where
  "unknown_metadata =
     \<lparr>package_name = ''unknown'', app_name = ''unknown'', version = ''unknown'',
      app_category = ''unknown'', developer = None, min_sdk = None, target_sdk = None\<rparr>"

text \<open>One iteration of the loop of \<open>Analyzer._parse_aapt_output\<close>.\<close>

definition parse_aapt_line :: "AppMetadata \<Rightarrow> string \<Rightarrow> error + AppMetadata" where
  "parse_aapt_line md line =
     (if startswith line ''package: name='' then
        (case index (split_on (CHR 0x27) line) 1 of
           Inl e \<Rightarrow> Inl e
         | Inr v \<Rightarrow> Inr (md\<lparr>package_name := v\<rparr>))
      else if startswith line ''application-label:'' then
        (case index (split_on (CHR '':'') line) 1 of
           Inl e \<Rightarrow> Inl e
         | Inr v \<Rightarrow> Inr (md\<lparr>app_name := strip v\<rparr>))
      else if startswith line ''versionCode='' then
        (case index (split_on (CHR ''='') line) 1 of
           Inl e \<Rightarrow> Inl e
         | Inr v \<Rightarrow>
             (case index (split_ws v) 0 of
                Inl e \<Rightarrow> Inl e
              | Inr w \<Rightarrow> Inr (md\<lparr>version := w\<rparr>)))
      else Inr md)"

fun parse_aapt_lines :: "AppMetadata \<Rightarrow> string list \<Rightarrow> error + AppMetadata" where
  "parse_aapt_lines md [] = Inr md"
| "parse_aapt_lines md (line # rest) =
     (case parse_aapt_line md line of
        Inl e \<Rightarrow> Inl e
      | Inr md' \<Rightarrow> parse_aapt_lines md' rest)"

definition parse_aapt_output :: "string \<Rightarrow> error + AppMetadata" where
  "parse_aapt_output output = parse_aapt_lines unknown_metadata (split_on newline output)"

text \<open>
  \<open>Analyzer._parse_manifest\<close>: the whole body is under \<open>except Exception\<close>, which
  answers with the all-unknown record.
\<close>

definition parse_manifest :: "manifest_file \<Rightarrow> AppMetadata" where
  "parse_manifest m =
     (case m of
        Parsed root \<Rightarrow>
          (let package_name = element_get root ''package'' ''unknown''
           in \<lparr>package_name = package_name, app_name = package_name, version = ''unknown'',
               app_category = ''unknown'', developer = None, min_sdk = None, target_sdk = None\<rparr>)
      | _ \<Rightarrow> unknown_metadata)"

definition default_metadata :: "app_env \<Rightarrow> AppMetadata" where
  "default_metadata env =
     \<lparr>package_name = path_stem env, app_name = path_stem env, version = ''unknown'',
      app_category = ''unknown'', developer = None, min_sdk = None, target_sdk = None\<rparr>"

text \<open>
  \<open>Analyzer._extract_android_metadata\<close>.  A completed run with return code 0 returns
  from inside the \<open>try\<close>; a missing tool and a timeout are swallowed, and so is a
  non-zero return code; then the manifest, then the default.
\<close>

definition manifest_or_default :: "app_env \<Rightarrow> AppMetadata" where
  "manifest_or_default env =
     (if manifest env \<noteq> Absent then parse_manifest (manifest env) else default_metadata env)"

definition extract_android_metadata :: "app_env \<Rightarrow> error + AppMetadata" where
  "extract_android_metadata env =
     (case aapt_badging env of
        Completed returncode stdout \<Rightarrow>
          (if returncode = 0 then parse_aapt_output stdout else Inr (manifest_or_default env))
      | ToolNotFound \<Rightarrow> Inr (manifest_or_default env)
      | ToolTimeout \<Rightarrow> Inr (manifest_or_default env))"

text \<open>\<open>Analyzer._parse_info_plist\<close> and \<open>Analyzer._extract_ios_metadata\<close>.\<close>

definition parse_info_plist :: "app_env \<Rightarrow> AppMetadata" where
  "parse_info_plist env =
     \<lparr>package_name = path_name env, app_name = path_name env, version = ''unknown'',
      app_category = ''unknown'', developer = None, min_sdk = None, target_sdk = None\<rparr>"

definition extract_ios_metadata :: "app_env \<Rightarrow> AppMetadata" where
  "extract_ios_metadata env =
     (if path_is_dir env \<and> info_plist_exists env then parse_info_plist env
      else default_metadata env)"

section \<open>Permission extraction\<close>

text \<open>The \<open>Permission(name=..., category=..., risk_level=...)\<close> built at both sources.\<close>

definition classified :: "string \<Rightarrow> Permission" where
  "classified perm_name =
     \<lparr>name = perm_name, category = categorize_permission perm_name,
      risk_level = assess_risk perm_name, description = None\<rparr>"

text \<open>The loop over the lines of the permission dump.\<close>

fun tool_permission_lines :: "Permission list \<Rightarrow> string list \<Rightarrow> error + Permission list" where
  "tool_permission_lines perms [] = Inr perms"
| "tool_permission_lines perms (line # rest) =
     (if startswith line ''permission:'' then
        (case index (split_on (CHR '':'') line) 1 of
           Inl e \<Rightarrow> Inl e
         | Inr tok \<Rightarrow> tool_permission_lines (perms @ [classified (strip tok)]) rest)
      else tool_permission_lines perms rest)"

definition tool_permissions :: "tool_outcome \<Rightarrow> error + Permission list" where
  "tool_permissions r =
     (case r of
        Completed returncode stdout \<Rightarrow>
          (if returncode = 0 then tool_permission_lines [] (split_on newline stdout)
           else Inr [])
      | ToolNotFound \<Rightarrow> Inr []
      | ToolTimeout \<Rightarrow> Inr [])"

definition android_name :: string where
  "android_name = ''{http://schemas.android.com/apk/res/android}name''"

text \<open>The loop over the \<open>uses-permission\<close> elements, with its \<open>if perm_name\<close> guard.\<close>

fun manifest_permission_elems :: "Permission list \<Rightarrow> element list \<Rightarrow> Permission list" where
  "manifest_permission_elems perms [] = perms"
| "manifest_permission_elems perms (perm # rest) =
     (let perm_name = element_get perm android_name []
      in if perm_name \<noteq> [] then manifest_permission_elems (perms @ [classified perm_name]) rest
         else manifest_permission_elems perms rest)"

text \<open>
  \<open>Analyzer._extract_android_permissions\<close>.  The manifest is parsed outside any
  \<open>try\<close>, so a failure of \<open>ET.parse\<close> leaves the function as an exception.
\<close>

definition extract_android_permissions :: "app_env \<Rightarrow> error + Permission list" where
  "extract_android_permissions env =
     (case tool_permissions (aapt_permissions env) of
        Inl e \<Rightarrow> Inl e
      | Inr perms \<Rightarrow>
          (case manifest env of
             Absent \<Rightarrow> Inr perms
           | Unparsable \<Rightarrow> Inl ParseError
           | Parsed root \<Rightarrow>
               Inr (manifest_permission_elems perms (findall root ''uses-permission''))))"

definition extract_ios_permissions :: "app_env \<Rightarrow> Permission list" where
  "extract_ios_permissions env = []"

section \<open>Pattern aggregation and over-permission detection\<close>

definition detect_over_permissioning :: "Permission list \<Rightarrow> AppMetadata \<Rightarrow> string list" where
  "detect_over_permissioning perms md = []"

text \<open>\<open>d.get(k, dflt)\<close> and \<open>d[k] = v\<close> on a dictionary in insertion order.\<close>

fun dict_get :: "(string \<times> nat) list \<Rightarrow> string \<Rightarrow> nat \<Rightarrow> nat" where
  "dict_get [] k dflt = dflt"
| "dict_get ((k', v') # d) k dflt = (if k' = k then v' else dict_get d k dflt)"

fun dict_set :: "(string \<times> nat) list \<Rightarrow> string \<Rightarrow> nat \<Rightarrow> (string \<times> nat) list" where
  "dict_set [] k v = [(k, v)]"
| "dict_set ((k', v') # d) k v = (if k' = k then (k', v) # d else (k', v') # dict_set d k v)"

text \<open>The loop of \<open>Analyzer._identify_patterns\<close> over the permissions.\<close>

fun count_categories :: "(string \<times> nat) list \<Rightarrow> Permission list \<Rightarrow> (string \<times> nat) list" where
  "count_categories cats [] = cats"
| "count_categories cats (perm # rest) =
     (let cat = category perm
      in count_categories (dict_set cats cat (dict_get cats cat 0 + 1)) rest)"

definition identify_patterns :: "Permission list \<Rightarrow> Patterns" where
  "identify_patterns perms =
     \<lparr>total_count = length perms,
      categories = count_categories [] perms,
      high_risk_count = sum_list [1. p \<leftarrow> perms, risk_level p = ''high'']\<rparr>"

section \<open>The analysis engine\<close>

definition analyze_android :: "app_env \<Rightarrow> error + AnalysisResult" where
  "analyze_android env =
     (case extract_android_metadata env of
        Inl e \<Rightarrow> Inl e
      | Inr md \<Rightarrow>
          (case extract_android_permissions env of
             Inl e \<Rightarrow> Inl e
           | Inr perms \<Rightarrow>
               Inr \<lparr>app_id = package_name md, platform = ''Android'', permissions = perms,
                    metadata = md,
                    over_permissions = detect_over_permissioning perms md,
                    patterns = identify_patterns perms\<rparr>))"

definition analyze_ios :: "app_env \<Rightarrow> error + AnalysisResult" where
  "analyze_ios env =
     (let md = extract_ios_metadata env;
          perms = extract_ios_permissions env
      in Inr \<lparr>app_id = package_name md, platform = ''iOS'', permissions = perms,
              metadata = md,
              over_permissions = detect_over_permissioning perms md,
              patterns = identify_patterns perms\<rparr>)"

text \<open>
  \<open>Analyzer.analyze\<close>: \<open>FileNotFoundError\<close> is the spec's NotFound and
  \<open>ValueError\<close> its UnsupportedFormat.
\<close>

definition analyze :: "app_env \<Rightarrow> error + AnalysisResult" where
  "analyze env =
     (if \<not> path_exists env then Inl FileNotFoundError
      else if path_suffix env = ''.apk''
              \<or> (path_is_dir env \<and> contains ''AndroidManifest.xml'' (path_str env))
      then analyze_android env
      else if path_suffix env = ''.ipa''
              \<or> (path_is_dir env \<and> contains ''Info.plist'' (path_str env))
      then analyze_ios env
      else Inl ValueError)"

section \<open>Summary text\<close>

text \<open>\<open>str(n)\<close> of a non-negative integer: its decimal digits.\<close>

definition digit :: "nat \<Rightarrow> char" where
  "digit d = char_of (48 + d)"

fun str_nat :: "nat \<Rightarrow> string" where
  "str_nat n = (if n < 10 then [digit n] else str_nat (n div 10) @ [digit (n mod 10)])"

declare str_nat.simps [simp del]

text \<open>
  \<open>AnalysisResult.summary\<close>: the triple-quoted f-string starts with a line break and
  ends with a line break and eight blanks, and is stripped.
\<close>

definition summary :: "AnalysisResult \<Rightarrow> string" where
  "summary r =
     strip ([newline] @ ''Analysis Summary for '' @ app_id r @
            [newline] @ ''Platform: '' @ platform r @
            [newline] @ ''Total Permissions: '' @ str_nat (length (permissions r)) @
            [newline] @ ''High Risk Permissions: '' @
              str_nat (sum_list [1. p \<leftarrow> permissions r, risk_level p = ''high'']) @
            [newline] @ ''Over-Permissions Detected: '' @ str_nat (length (over_permissions r)) @
            [newline] @ ''        '')"

section \<open>Comparison\<close>

text \<open>
  The \<open>compare\<close> command of \<open>cli.py\<close>, from the two analysis results on: the names
  as Python sets, their intersection and differences.  The lists written out are these
  sets in no particular order, so the fields are sets.
\<close>

record ComparisonResult =
  app1 :: string
  app2 :: string
  common_permissions :: "string set"
  only_in_app1 :: "string set"
  only_in_app2 :: "string set"

definition compare :: "string \<Rightarrow> string \<Rightarrow> AnalysisResult \<Rightarrow> AnalysisResult \<Rightarrow> ComparisonResult" where
  "compare arg1 arg2 result1 result2 =
     (let perms1 = set (map name (permissions result1));
          perms2 = set (map name (permissions result2));
          common = perms1 \<inter> perms2;
          only1 = perms1 - perms2;
          only2 = perms2 - perms1
      in \<lparr>app1 = arg1, app2 = arg2, common_permissions = common,
          only_in_app1 = only1, only_in_app2 = only2\<rparr>)"

text \<open>
  Reading a decimal numeral back, to say what number a text reports (the inverse of
  \<open>str\<close> on the numerals it produces).
\<close>

definition decimal_value :: "string \<Rightarrow> nat" where
  "decimal_value s = foldl (\<lambda>a c. 10 * a + (of_char c - 48)) 0 s"

section \<open>Concrete inputs\<close>

text \<open>An analysis result with two permissions, one of them high risk.\<close>

definition example_result :: AnalysisResult where
  "example_result =
     \<lparr>app_id = ''com.example.app'', platform = ''Android'',
      permissions =
        [\<lparr>name = ''android.permission.CAMERA'', category = ''Camera'',
          risk_level = ''high'', description = None\<rparr>,
         \<lparr>name = ''android.permission.VIBRATE'', category = ''Other'',
          risk_level = ''low'', description = None\<rparr>],
      metadata =
        \<lparr>package_name = ''com.example.app'', app_name = ''Example'', version = ''7'',
         app_category = ''unknown'', developer = None, min_sdk = None, target_sdk = None\<rparr>,
      over_permissions = [],
      patterns =
        \<lparr>total_count = 2, categories = [(''Camera'', 1), (''Other'', 1)],
         high_risk_count = 1\<rparr>\<rparr>"

text \<open>
  An unpacked application in the directory \<open>/apps/demo.apk\<close>, on a machine without
  the badging tool, and with no manifest in the directory.
\<close>

definition bare_env :: app_env where
  "bare_env =
     \<lparr>path_exists = True, path_is_dir = True, path_str = ''/apps/demo.apk'',
      path_name = ''demo.apk'', path_suffix = ''.apk'', path_stem = ''demo'',
      aapt_badging = ToolNotFound, aapt_permissions = ToolNotFound,
      manifest = Absent, info_plist_exists = False\<rparr>"

text \<open>The same directory with a manifest that is not well-formed XML.\<close>

definition broken_manifest_env :: app_env where
  "broken_manifest_env = bare_env\<lparr>manifest := Unparsable\<rparr>"

text \<open>The same directory with a well-formed manifest that asks for the camera.\<close>

definition example_manifest :: element where
  "example_manifest =
     Element ''manifest'' [(''package'', ''com.example.app'')]
       [Element ''uses-permission'' [(android_name, ''android.permission.CAMERA'')] [],
        Element ''application'' [] []]"

definition manifest_env :: app_env where
  "manifest_env = bare_env\<lparr>manifest := Parsed example_manifest\<rparr>"

text \<open>
  The same directory where the tool is installed: its badging output names the package
  and its label, and its permission dump has a line \<open>permission:\<close> with nothing
  after the colon.
\<close>

definition badging_output :: string where
  "badging_output =
     ''package: name='' @ [CHR 0x27] @ ''org.tool.app'' @ [CHR 0x27] @ '' versionCode=''
       @ [CHR 0x27] @ ''7'' @ [CHR 0x27] @ [newline] @ ''application-label:Tool App''"

definition tool_env :: app_env where
  "tool_env =
     bare_env\<lparr>aapt_badging := Completed 0 badging_output,
              aapt_permissions :=
                Completed 0 (''package: org.tool.app'' @ [newline] @ ''permission:'' @ [newline])\<rparr>"

text \<open>
  The directory with the well-formed manifest, where the tool is installed and its
  badging run ends with return code 0 but prints the package line without any quote.
\<close>

definition unquoted_badging_env :: app_env where
  "unquoted_badging_env = manifest_env\<lparr>aapt_badging := Completed 0 ''package: name=''\<rparr>"

section \<open>Facts about the string primitives\<close>

lemma startswith_iff: "startswith s p \<longleftrightarrow> (\<exists>post. s = p @ post)"
  by (induction s p rule: startswith.induct) auto

text \<open>\<open>contains\<close> is the substring test.\<close>

lemma contains_iff: "contains kw s \<longleftrightarrow> (\<exists>pre post. s = pre @ kw @ post)"
proof (induction s)
  case Nil
  then show ?case by auto
next
  case (Cons c cs)
  show ?case
  proof
    assume "contains kw (c # cs)"
    then consider "startswith (c # cs) kw" | "contains kw cs" by auto
    then show "\<exists>pre post. c # cs = pre @ kw @ post"
    proof cases
      case 1
      then obtain post where "c # cs = kw @ post" by (auto simp: startswith_iff)
      then have "c # cs = [] @ kw @ post" by simp
      then show ?thesis by blast
    next
      case 2
      then obtain pre post where "cs = pre @ kw @ post" using Cons.IH by blast
      then have "c # cs = (c # pre) @ kw @ post" by simp
      then show ?thesis by blast
    qed
  next
    assume "\<exists>pre post. c # cs = pre @ kw @ post"
    then obtain pre post where e: "c # cs = pre @ kw @ post" by blast
    show "contains kw (c # cs)"
    proof (cases pre)
      case Nil
      then have "startswith (c # cs) kw" using e by (auto simp: startswith_iff)
      then show ?thesis by simp
    next
      case (Cons a pre')
      then have "cs = pre' @ kw @ post" using e by simp
      then have "contains kw cs" using Cons.IH by blast
      then show ?thesis by simp
    qed
  qed
qed

text \<open>
  A keyword written in lower case that occurs in a name also occurs in the lower-cased
  name.
\<close>

lemma contains_lower: "contains kw s \<Longrightarrow> contains (lower kw) (lower s)"
proof -
  assume "contains kw s"
  then obtain pre post where "s = pre @ kw @ post" by (auto simp: contains_iff)
  then have "lower s = lower pre @ lower kw @ lower post" by (simp add: lower_def)
  then show ?thesis unfolding contains_iff by blast
qed

lemma keyword_in_name: "lower kw = kw \<Longrightarrow> contains kw s \<Longrightarrow> contains kw (lower s)"
  using contains_lower[of kw s] by simp

section \<open>The classifier\<close>

lemma chain_range:
  "(if a then x1 else if b then x2 else if c then x3 else if d then x4
    else if e then x5 else if f then x6 else x7) \<in> {x1, x2, x3, x4, x5, x6, x7::string}"
  by simp

lemma categorize_chain:
  "categorize_permission s =
     (if contains ''location'' (lower s) \<or> contains ''gps'' (lower s) then ''Location''
      else if contains ''camera'' (lower s) then ''Camera''
      else if contains ''contact'' (lower s) \<or> contains ''phone'' (lower s) then ''Contacts''
      else if contains ''storage'' (lower s) \<or> contains ''read_external'' (lower s)
              \<or> contains ''write_external'' (lower s) then ''Storage''
      else if contains ''internet'' (lower s) \<or> contains ''network'' (lower s) then ''Network''
      else if contains ''sms'' (lower s) \<or> contains ''call'' (lower s) then ''Communication''
      else ''Other'')"
  by (simp add: categorize_permission_def Let_def)

lemma categorize_range:
  "categorize_permission s \<in>
      {''Location'', ''Camera'', ''Contacts'', ''Storage'', ''Network'', ''Communication'', ''Other''}"
  unfolding categorize_chain by (rule chain_range)

lemma categorize_empty: "categorize_permission [] = ''Other''"
  by (simp add: categorize_permission_def lower_def)

lemma categorize_location:
  "contains ''location'' (lower s) \<or> contains ''gps'' (lower s) \<Longrightarrow>
   categorize_permission s = ''Location''"
  by (simp add: categorize_permission_def Let_def)

lemma categorize_contacts:
  "contains ''contact'' (lower s) \<or> contains ''phone'' (lower s) \<Longrightarrow>
   \<not> contains ''location'' (lower s) \<Longrightarrow> \<not> contains ''gps'' (lower s) \<Longrightarrow>
   \<not> contains ''camera'' (lower s) \<Longrightarrow> categorize_permission s = ''Contacts''"
  by (simp add: categorize_permission_def Let_def)

text \<open>
  Claim C2, as the spec states it, fails: a name that contains "phone" and "internet"
  does not map to Contacts when it also contains "gps", since the Location rule comes
  first.  The name \<open>gps_phone_internet\<close> contains both keywords and is categorized as
  Location.
\<close>

theorem categorize_phone_internet_counterexample:
  "contains ''phone'' ''gps_phone_internet'' \<and> contains ''internet'' ''gps_phone_internet''
   \<and> categorize_permission ''gps_phone_internet'' = ''Location''
   \<and> categorize_permission ''gps_phone_internet'' \<noteq> ''Contacts''"
  by code_simp

text \<open>
  Claim C2, amended.  \<open>categorize_permission\<close> is a total function of the name whose
  value is always one of the seven categories; the empty name maps to Other; the value
  is that of the first rule, in the order Location, Camera, Contacts, Storage, Network,
  Communication, whose keyword occurs in the lower-cased name, and Other when none
  does; and every name whose lower-cased form contains "phone" and "internet" but none
  of "location", "gps" and "camera" maps to Contacts.
\<close>

theorem categorize_first_match:
  "categorize_permission s \<in>
      {''Location'', ''Camera'', ''Contacts'', ''Storage'', ''Network'', ''Communication'', ''Other''}
   \<and> categorize_permission [] = ''Other''
   \<and> categorize_permission s =
     (if contains ''location'' (lower s) \<or> contains ''gps'' (lower s) then ''Location''
      else if contains ''camera'' (lower s) then ''Camera''
      else if contains ''contact'' (lower s) \<or> contains ''phone'' (lower s) then ''Contacts''
      else if contains ''storage'' (lower s) \<or> contains ''read_external'' (lower s)
              \<or> contains ''write_external'' (lower s) then ''Storage''
      else if contains ''internet'' (lower s) \<or> contains ''network'' (lower s) then ''Network''
      else if contains ''sms'' (lower s) \<or> contains ''call'' (lower s) then ''Communication''
      else ''Other'')
   \<and> (contains ''phone'' (lower s) \<and> contains ''internet'' (lower s)
        \<and> \<not> contains ''location'' (lower s) \<and> \<not> contains ''gps'' (lower s)
        \<and> \<not> contains ''camera'' (lower s)
        \<longrightarrow> categorize_permission s = ''Contacts'')"
proof (intro conjI impI)
  show "categorize_permission s \<in>
      {''Location'', ''Camera'', ''Contacts'', ''Storage'', ''Network'', ''Communication'', ''Other''}"
    by (rule categorize_range)
  show "categorize_permission [] = ''Other''"
    by (rule categorize_empty)
  show "categorize_permission s =
     (if contains ''location'' (lower s) \<or> contains ''gps'' (lower s) then ''Location''
      else if contains ''camera'' (lower s) then ''Camera''
      else if contains ''contact'' (lower s) \<or> contains ''phone'' (lower s) then ''Contacts''
      else if contains ''storage'' (lower s) \<or> contains ''read_external'' (lower s)
              \<or> contains ''write_external'' (lower s) then ''Storage''
      else if contains ''internet'' (lower s) \<or> contains ''network'' (lower s) then ''Network''
      else if contains ''sms'' (lower s) \<or> contains ''call'' (lower s) then ''Communication''
      else ''Other'')"
    by (rule categorize_chain)
next
  assume "contains ''phone'' (lower s) \<and> contains ''internet'' (lower s)
        \<and> \<not> contains ''location'' (lower s) \<and> \<not> contains ''gps'' (lower s)
        \<and> \<not> contains ''camera'' (lower s)"
  then show "categorize_permission s = ''Contacts''"
    using categorize_contacts[of s] by blast
qed

theorem categorize_first_match_witness:
  "contains ''phone'' (lower ''READ_PHONE_STATE_via_Internet'')
   \<and> contains ''internet'' (lower ''READ_PHONE_STATE_via_Internet'')
   \<and> \<not> contains ''location'' (lower ''READ_PHONE_STATE_via_Internet'')
   \<and> \<not> contains ''gps'' (lower ''READ_PHONE_STATE_via_Internet'')
   \<and> \<not> contains ''camera'' (lower ''READ_PHONE_STATE_via_Internet'')
   \<and> categorize_permission ''READ_PHONE_STATE_via_Internet'' = ''Contacts''"
proof -
  have h: "contains ''phone'' (lower ''READ_PHONE_STATE_via_Internet'')
   \<and> contains ''internet'' (lower ''READ_PHONE_STATE_via_Internet'')
   \<and> \<not> contains ''location'' (lower ''READ_PHONE_STATE_via_Internet'')
   \<and> \<not> contains ''gps'' (lower ''READ_PHONE_STATE_via_Internet'')
   \<and> \<not> contains ''camera'' (lower ''READ_PHONE_STATE_via_Internet'')"
    by code_simp
  from categorize_first_match[of "''READ_PHONE_STATE_via_Internet''"] h
  have "categorize_permission ''READ_PHONE_STATE_via_Internet'' = ''Contacts''"
    by blast
  with h show ?thesis by blast
qed

lemma assess_chain:
  "assess_risk s =
     (if contains ''location'' (lower s) \<or> contains ''camera'' (lower s)
         \<or> contains ''microphone'' (lower s) \<or> contains ''contacts'' (lower s)
         \<or> contains ''sms'' (lower s) \<or> contains ''phone'' (lower s)
         \<or> contains ''call'' (lower s) then ''high''
      else if contains ''storage'' (lower s) \<or> contains ''internet'' (lower s) then ''medium''
      else ''low'')"
  by (simp add: assess_risk_def high_risk_perms_def Let_def)

lemma assess_high:
  "list_ex (\<lambda>risk. contains risk (lower s)) high_risk_perms \<Longrightarrow> assess_risk s = ''high''"
  by (simp add: assess_risk_def Let_def)

lemma assess_low:
  "\<not> list_ex (\<lambda>kw. contains kw (lower s)) (high_risk_perms @ [''storage'', ''internet'']) \<Longrightarrow>
   assess_risk s = ''low''"
  by (simp add: assess_risk_def Let_def)

lemma assess_range: "assess_risk s \<in> {''high'', ''medium'', ''low''}"
  by (simp add: assess_risk_def Let_def)

text \<open>
  Claim C3.  \<open>assess_risk\<close> is a total function of the name: on the lower-cased name
  it answers high when one of location, camera, microphone, contacts, sms, phone, call
  occurs, otherwise medium when storage or internet occurs, otherwise low; so its value
  is one of the three levels, and a name with both a high-risk and a medium-risk
  keyword is high.
\<close>

theorem assess_risk_priority:
  "assess_risk s =
     (if contains ''location'' (lower s) \<or> contains ''camera'' (lower s)
         \<or> contains ''microphone'' (lower s) \<or> contains ''contacts'' (lower s)
         \<or> contains ''sms'' (lower s) \<or> contains ''phone'' (lower s)
         \<or> contains ''call'' (lower s) then ''high''
      else if contains ''storage'' (lower s) \<or> contains ''internet'' (lower s) then ''medium''
      else ''low'')
   \<and> assess_risk s \<in> {''high'', ''medium'', ''low''}
   \<and> ((\<exists>h \<in> set high_risk_perms. contains h (lower s))
        \<and> (contains ''storage'' (lower s) \<or> contains ''internet'' (lower s))
        \<longrightarrow> assess_risk s = ''high'')"
proof (intro conjI impI)
  show "assess_risk s =
     (if contains ''location'' (lower s) \<or> contains ''camera'' (lower s)
         \<or> contains ''microphone'' (lower s) \<or> contains ''contacts'' (lower s)
         \<or> contains ''sms'' (lower s) \<or> contains ''phone'' (lower s)
         \<or> contains ''call'' (lower s) then ''high''
      else if contains ''storage'' (lower s) \<or> contains ''internet'' (lower s) then ''medium''
      else ''low'')"
    by (rule assess_chain)
  show "assess_risk s \<in> {''high'', ''medium'', ''low''}"
    by (rule assess_range)
next
  assume "(\<exists>h \<in> set high_risk_perms. contains h (lower s))
        \<and> (contains ''storage'' (lower s) \<or> contains ''internet'' (lower s))"
  then have "list_ex (\<lambda>risk. contains risk (lower s)) high_risk_perms"
    by (simp add: list_ex_iff)
  then show "assess_risk s = ''high''"
    by (rule assess_high)
qed

theorem assess_risk_priority_witness:
  "(\<exists>h \<in> set high_risk_perms. contains h (lower ''storage_and_location''))
   \<and> (contains ''storage'' (lower ''storage_and_location'')
       \<or> contains ''internet'' (lower ''storage_and_location''))
   \<and> assess_risk ''storage_and_location'' = ''high''"
proof -
  have h1: "list_ex (\<lambda>h. contains h (lower ''storage_and_location'')) high_risk_perms"
    by code_simp
  have h2: "contains ''storage'' (lower ''storage_and_location'')"
    by code_simp
  from h1 have h1': "\<exists>h \<in> set high_risk_perms. contains h (lower ''storage_and_location'')"
    by (simp only: list_ex_iff)
  from assess_risk_priority[of "''storage_and_location''"] h1' h2
  have "assess_risk ''storage_and_location'' = ''high''"
    by blast
  with h1' h2 show ?thesis by blast
qed

lemma enable_gps_classified:
  "categorize_permission ''enable_gps'' = ''Location'' \<and> assess_risk ''enable_gps'' = ''low''"
  by code_simp

text \<open>
  Claim C10.  Being in the Location category does not make a permission high risk:
  some name is categorized as Location and assessed low.  Every name whose lower-cased
  form contains "gps" and none of location, camera, microphone, contacts, sms, phone,
  call, storage, internet is such a name.
\<close>

theorem location_not_always_high:
  "(\<exists>s. categorize_permission s = ''Location'' \<and> assess_risk s = ''low'')
   \<and> (\<forall>s. contains ''gps'' (lower s)
        \<and> \<not> list_ex (\<lambda>kw. contains kw (lower s))
             [''location'', ''camera'', ''microphone'', ''contacts'', ''sms'', ''phone'',
              ''call'', ''storage'', ''internet'']
        \<longrightarrow> categorize_permission s = ''Location'' \<and> assess_risk s = ''low'')"
proof (intro conjI allI impI)
  show "\<exists>s. categorize_permission s = ''Location'' \<and> assess_risk s = ''low''"
    using enable_gps_classified by blast
next
  fix s
  assume a: "contains ''gps'' (lower s)
        \<and> \<not> list_ex (\<lambda>kw. contains kw (lower s))
             [''location'', ''camera'', ''microphone'', ''contacts'', ''sms'', ''phone'',
              ''call'', ''storage'', ''internet'']"
  then show "categorize_permission s = ''Location''"
    by (simp add: categorize_location)
  from a have "\<not> list_ex (\<lambda>kw. contains kw (lower s))
                  (high_risk_perms @ [''storage'', ''internet''])"
    by (simp add: high_risk_perms_def)
  then show "assess_risk s = ''low''"
    by (rule assess_low)
qed

theorem location_not_always_high_witness:
  "contains ''gps'' (lower ''enable_gps'')
   \<and> \<not> list_ex (\<lambda>kw. contains kw (lower ''enable_gps''))
        [''location'', ''camera'', ''microphone'', ''contacts'', ''sms'', ''phone'', ''call'',
         ''storage'', ''internet'']
   \<and> categorize_permission ''enable_gps'' = ''Location'' \<and> assess_risk ''enable_gps'' = ''low''"
proof -
  have h: "contains ''gps'' (lower ''enable_gps'')
   \<and> \<not> list_ex (\<lambda>kw. contains kw (lower ''enable_gps''))
        [''location'', ''camera'', ''microphone'', ''contacts'', ''sms'', ''phone'', ''call'',
         ''storage'', ''internet'']"
    by code_simp
  from location_not_always_high h
  have "categorize_permission ''enable_gps'' = ''Location'' \<and> assess_risk ''enable_gps'' = ''low''"
    by blast
  with h show ?thesis by blast
qed

section \<open>The pattern aggregator\<close>

text \<open>One increment of a counter adds one to the sum of all counters.\<close>

lemma sum_dict_set:
  "sum_list (map snd (dict_set d k (Suc (dict_get d k 0)))) = Suc (sum_list (map snd d))"
  by (induction d) auto

lemma dict_get_set:
  "dict_get (dict_set d k v) k' dflt = (if k' = k then v else dict_get d k' dflt)"
  by (induction d) auto

lemma keys_dict_set:
  "map fst (dict_set d k v) = (if k \<in> set (map fst d) then map fst d else map fst d @ [k])"
  by (induction d) force+

lemma distinct_dict_set:
  "distinct (map fst d) \<Longrightarrow> distinct (map fst (dict_set d k v))"
  by (simp add: keys_dict_set)

text \<open>The loop invariants, for any dictionary the loop starts from.\<close>

lemma sum_count_categories:
  "sum_list (map snd (count_categories cats perms)) = sum_list (map snd cats) + length perms"
  by (induction perms arbitrary: cats) (simp_all add: Let_def sum_dict_set)

lemma get_count_categories:
  "dict_get (count_categories cats perms) c 0 =
     dict_get cats c 0 + length (filter (\<lambda>p. category p = c) perms)"
  by (induction perms arbitrary: cats) (simp_all add: Let_def dict_get_set)

lemma distinct_count_categories:
  "distinct (map fst cats) \<Longrightarrow> distinct (map fst (count_categories cats perms))"
  by (induction perms arbitrary: cats) (simp_all add: Let_def distinct_dict_set)

lemma sum_ones: "sum_list [1. p \<leftarrow> perms, P p] = length (filter P perms)"
  by (induction perms) auto

text \<open>
  Claim C4.  For every permission sequence \<open>P\<close>, the pattern summary has
  \<open>total_count\<close> the length of \<open>P\<close>, \<open>high_risk_count\<close> the number of elements of
  \<open>P\<close> with risk level "high", and the values of \<open>categories\<close> sum to
  \<open>total_count\<close>: the dictionary has one entry per key, and the counter of a category
  is the number of permissions of that category.
\<close>

theorem identify_patterns_counts:
  "total_count (identify_patterns P) = length P
   \<and> high_risk_count (identify_patterns P) = length (filter (\<lambda>p. risk_level p = ''high'') P)
   \<and> sum_list (map snd (categories (identify_patterns P))) = total_count (identify_patterns P)
   \<and> dict_get (categories (identify_patterns P)) c 0 = length (filter (\<lambda>p. category p = c) P)
   \<and> distinct (map fst (categories (identify_patterns P)))"
  by (simp add: identify_patterns_def sum_ones sum_count_categories get_count_categories
        distinct_count_categories)

section \<open>The comparator\<close>

text \<open>
  Claim C5.  For every pair of analysis results, \<open>compare\<close> works on the sets of
  permission names: the common names and the names only in the first result make up
  the first result's names and are disjoint, likewise for the second result, and the
  common set does not depend on the order of the two results.
\<close>

theorem compare_partition:
  "common_permissions (compare a1 a2 A B) \<union> only_in_app1 (compare a1 a2 A B)
      = set (map name (permissions A))
   \<and> common_permissions (compare a1 a2 A B) \<inter> only_in_app1 (compare a1 a2 A B) = {}
   \<and> common_permissions (compare a1 a2 A B) \<union> only_in_app2 (compare a1 a2 A B)
      = set (map name (permissions B))
   \<and> common_permissions (compare a1 a2 A B) \<inter> only_in_app2 (compare a1 a2 A B) = {}
   \<and> common_permissions (compare a1 a2 A B) = common_permissions (compare a2 a1 B A)"
  by (auto simp: compare_def Let_def)

section \<open>The summary text\<close>

lemma of_char_digit: "d < 10 \<Longrightarrow> (of_char (digit d) :: nat) = 48 + d"
  by (simp add: digit_def)

lemma digit_not_space: "d < 10 \<Longrightarrow> \<not> isspace (digit d)"
  by (simp add: isspace_def Let_def of_char_digit)

lemma digit_not_newline: "d < 10 \<Longrightarrow> digit d \<noteq> newline"
proof
  assume d: "d < 10" and e: "digit d = newline"
  have "(of_char (digit d) :: nat) = of_char newline" using e by simp
  then show False using d by (simp add: of_char_digit newline_def)
qed

lemma str_nat_last: "str_nat n \<noteq> [] \<and> last (str_nat n) = digit (n mod 10)"
proof (cases "n < 10")
  case True
  then show ?thesis by (subst (1 2) str_nat.simps) simp
next
  case False
  then show ?thesis by (subst (1 2) str_nat.simps) simp
qed

lemma strip_tail:
  assumes "xs \<noteq> []" "\<not> isspace (last xs)" "\<forall>c\<in>set ws. isspace c"
  shows "rev (dropWhile isspace (rev (xs @ ws))) = xs"
proof -
  have "dropWhile isspace (rev ws @ rev xs) = dropWhile isspace (rev xs)"
    by (rule dropWhile_append2) (use assms(3) in auto)
  also have "\<dots> = rev xs"
    using assms(1,2) by (cases xs rule: rev_cases) auto
  finally show ?thesis by simp
qed

lemma split_by_nosep: "\<forall>c\<in>set xs. \<not> p c \<Longrightarrow> split_by p xs = [xs]"
  by (induction xs) auto

lemma split_by_append:
  "\<forall>c\<in>set xs. \<not> p c \<Longrightarrow> p c0 \<Longrightarrow> split_by p (xs @ c0 # ys) = xs # split_by p ys"
  by (induction xs) auto

lemma str_nat_digits: "set (str_nat n) \<subseteq> digit ` {..<10}"
proof (induction n rule: str_nat.induct)
  case (1 n)
  show ?case
  proof (cases "n < 10")
    case True
    then show ?thesis by (subst str_nat.simps) simp
  next
    case False
    then have "set (str_nat (n div 10)) \<subseteq> digit ` {..<10}" using 1 by simp
    moreover have "digit (n mod 10) \<in> digit ` {..<10}" by simp
    ultimately show ?thesis using False by (subst str_nat.simps) simp
  qed
qed

lemma str_nat_no_newline: "newline \<notin> set (str_nat n)"
proof
  assume "newline \<in> set (str_nat n)"
  then have "newline \<in> digit ` {..<10}" using str_nat_digits[of n] by blast
  then obtain d where "d < 10" "newline = digit d" by auto
  then show False using digit_not_newline[of d] by simp
qed

lemma decimal_value_str_nat: "decimal_value (str_nat n) = n"
proof (induction n rule: str_nat.induct)
  case (1 n)
  show ?case
  proof (cases "n < 10")
    case True
    then show ?thesis by (subst str_nat.simps) (simp add: decimal_value_def of_char_digit)
  next
    case False
    then have "decimal_value (str_nat (n div 10)) = n div 10" using 1 by simp
    then show ?thesis using False
      by (subst str_nat.simps) (simp add: decimal_value_def of_char_digit)
  qed
qed


lemma isspace_newline: "isspace newline"
  by (simp add: isspace_def newline_def)

lemma isspace_blank: "isspace CHR '' ''"
  by (simp add: isspace_def)

lemma not_isspace_A: "\<not> isspace CHR ''A''"
  by (simp add: isspace_def)

lemma strip_framed:
  assumes "\<not> isspace c" "\<not> isspace (last (c # xs @ ds))" "\<forall>w\<in>set ws. isspace w"
  shows "strip (newline # c # xs @ ds @ ws) = c # xs @ ds"
proof -
  have "dropWhile isspace (newline # c # xs @ ds @ ws) = (c # xs @ ds) @ ws"
    using assms(1) by (simp add: isspace_newline)
  then have "strip (newline # c # xs @ ds @ ws) = rev (dropWhile isspace (rev ((c # xs @ ds) @ ws)))"
    by (simp only: strip_def)
  also have "\<dots> = c # xs @ ds"
    by (rule strip_tail) (use assms in simp_all)
  finally show ?thesis .
qed

lemma summary_text:
  "summary r =
     ''Analysis Summary for '' @ app_id r @
     newline # ''Platform: '' @ platform r @
     newline # ''Total Permissions: '' @ str_nat (length (permissions r)) @
     newline # ''High Risk Permissions: '' @
       str_nat (length (filter (\<lambda>p. risk_level p = ''high'') (permissions r))) @
     newline # ''Over-Permissions Detected: '' @ str_nat (length (over_permissions r))"
proof -
  define xs where "xs = ''nalysis Summary for '' @ app_id r @
     newline # ''Platform: '' @ platform r @
     newline # ''Total Permissions: '' @ str_nat (length (permissions r)) @
     newline # ''High Risk Permissions: '' @
       str_nat (length (filter (\<lambda>p. risk_level p = ''high'') (permissions r))) @
     newline # ''Over-Permissions Detected: ''"
  define ds where "ds = str_nat (length (over_permissions r))"
  define ws where "ws = newline # ''        ''"
  have raw: "summary r = strip (newline # CHR ''A'' # xs @ ds @ ws)"
    by (simp add: summary_def xs_def ds_def ws_def sum_ones)
  have l: "last (CHR ''A'' # xs @ ds) = digit (length (over_permissions r) mod 10)"
    using str_nat_last[of "length (over_permissions r)"] by (simp add: ds_def)
  have "\<not> isspace (last (CHR ''A'' # xs @ ds))"
    unfolding l by (rule digit_not_space) simp
  moreover have "\<forall>w\<in>set ws. isspace w"
    by (simp add: ws_def isspace_newline isspace_blank)
  ultimately have "strip (newline # CHR ''A'' # xs @ ds @ ws) = CHR ''A'' # xs @ ds"
    using not_isspace_A by (intro strip_framed)
  then show ?thesis
    unfolding raw by (simp add: xs_def ds_def)
qed

lemma split_five:
  assumes "sep \<notin> set l1" "sep \<notin> set l2" "sep \<notin> set l3" "sep \<notin> set l4" "sep \<notin> set l5"
  shows "split_on sep (l1 @ sep # l2 @ sep # l3 @ sep # l4 @ sep # l5) = [l1, l2, l3, l4, l5]"
proof -
  have n: "\<forall>c\<in>set l. \<not> (\<lambda>c. c = sep) c" if "sep \<notin> set l" for l
    using that by auto
  show ?thesis
    unfolding split_on_def
    by (simp add: split_by_append[OF n] split_by_nosep[OF n] assms)
qed

lemma literal_no_newline:
  "newline \<notin> set ''Analysis Summary for ''" "newline \<notin> set ''Platform: ''"
  "newline \<notin> set ''Total Permissions: ''" "newline \<notin> set ''High Risk Permissions: ''"
  "newline \<notin> set ''Over-Permissions Detected: ''"
  by (simp_all add: newline_def)

lemma summary_lines:
  assumes "newline \<notin> set (app_id r) \<and> newline \<notin> set (platform r)"
  shows "split_on newline (summary r) =
          [''Analysis Summary for '' @ app_id r,
           ''Platform: '' @ platform r,
           ''Total Permissions: '' @ str_nat (length (permissions r)),
           ''High Risk Permissions: '' @
              str_nat (length (filter (\<lambda>p. risk_level p = ''high'') (permissions r))),
           ''Over-Permissions Detected: '' @ str_nat (length (over_permissions r))]"
proof -
  define l1 where "l1 = ''Analysis Summary for '' @ app_id r"
  define l2 where "l2 = ''Platform: '' @ platform r"
  define l3 where "l3 = ''Total Permissions: '' @ str_nat (length (permissions r))"
  define l4 where "l4 = ''High Risk Permissions: '' @
              str_nat (length (filter (\<lambda>p. risk_level p = ''high'') (permissions r)))"
  define l5 where "l5 = ''Over-Permissions Detected: '' @ str_nat (length (over_permissions r))"
  have s: "summary r = l1 @ newline # l2 @ newline # l3 @ newline # l4 @ newline # l5"
    unfolding summary_text l1_def l2_def l3_def l4_def l5_def by simp
  have "newline \<notin> set l1" "newline \<notin> set l2" "newline \<notin> set l3" "newline \<notin> set l4"
       "newline \<notin> set l5"
    unfolding l1_def l2_def l3_def l4_def l5_def set_append
    using assms literal_no_newline str_nat_no_newline by blast+
  then have "split_on newline (summary r) = [l1, l2, l3, l4, l5]"
    unfolding s by (rule split_five)
  then show ?thesis
    unfolding l1_def l2_def l3_def l4_def l5_def .
qed

text \<open>
  Claim C8, amended.  For every analysis result the summary is a text of five lines,
  not four: a heading with the app id, then the platform, the total permission count,
  the high-risk permission count and the over-permission count, each count as a
  decimal numeral.  The counts are the length of \<open>permissions\<close>, the number of
  permissions with risk level "high", and the length of \<open>over_permissions\<close>.  The
  five pieces are the lines of the text whenever the app id and the platform contain
  no line break.
\<close>

theorem summary_five_lines:
  "summary r =
     ''Analysis Summary for '' @ app_id r @
     newline # ''Platform: '' @ platform r @
     newline # ''Total Permissions: '' @ str_nat (length (permissions r)) @
     newline # ''High Risk Permissions: '' @
       str_nat (length (filter (\<lambda>p. risk_level p = ''high'') (permissions r))) @
     newline # ''Over-Permissions Detected: '' @ str_nat (length (over_permissions r))
   \<and> (newline \<notin> set (app_id r) \<and> newline \<notin> set (platform r) \<longrightarrow>
        split_on newline (summary r) =
          [''Analysis Summary for '' @ app_id r,
           ''Platform: '' @ platform r,
           ''Total Permissions: '' @ str_nat (length (permissions r)),
           ''High Risk Permissions: '' @
              str_nat (length (filter (\<lambda>p. risk_level p = ''high'') (permissions r))),
           ''Over-Permissions Detected: '' @ str_nat (length (over_permissions r))])"
  using summary_text[of r] summary_lines[of r] by blast

lemma example_no_newline:
  "newline \<notin> set (app_id example_result) \<and> newline \<notin> set (platform example_result)"
  by (simp add: example_result_def newline_def)

lemma str_nat_small:
  "str_nat 0 = ''0''" "str_nat (Suc 0) = ''1''" "str_nat (Suc (Suc 0)) = ''2''"
  by code_simp+

text \<open>
  Claim C8, as the spec states it, fails: the summary of the example result has five
  lines, not four.
\<close>

theorem summary_four_lines_counterexample:
  "length (split_on newline (summary example_result)) = 5
   \<and> length (split_on newline (summary example_result)) \<noteq> 4"
  using summary_lines[of example_result] example_no_newline by simp

theorem summary_five_lines_witness:
  "newline \<notin> set (app_id example_result) \<and> newline \<notin> set (platform example_result)
   \<and> split_on newline (summary example_result) =
       [''Analysis Summary for com.example.app'', ''Platform: Android'',
        ''Total Permissions: 2'', ''High Risk Permissions: 1'',
        ''Over-Permissions Detected: 0'']"
proof -
  from summary_five_lines[of example_result] example_no_newline
  have "split_on newline (summary example_result) =
          [''Analysis Summary for '' @ app_id example_result,
           ''Platform: '' @ platform example_result,
           ''Total Permissions: '' @ str_nat (length (permissions example_result)),
           ''High Risk Permissions: '' @
              str_nat (length (filter (\<lambda>p. risk_level p = ''high'') (permissions example_result))),
           ''Over-Permissions Detected: '' @ str_nat (length (over_permissions example_result))]"
    by blast
  also have "\<dots> = [''Analysis Summary for com.example.app'', ''Platform: Android'',
        ''Total Permissions: 2'', ''High Risk Permissions: 1'',
        ''Over-Permissions Detected: 0'']"
    by (simp add: example_result_def str_nat_small)
  finally show ?thesis using example_no_newline by simp
qed

section \<open>Metadata extraction: the order of the sources\<close>

lemma metadata_tool_success:
  "aapt_badging env = Completed 0 out \<Longrightarrow> extract_android_metadata env = parse_aapt_output out"
  by (simp add: extract_android_metadata_def)

lemma metadata_tool_unavailable:
  "aapt_badging env = ToolNotFound \<or> aapt_badging env = ToolTimeout \<Longrightarrow>
   extract_android_metadata env = Inr (manifest_or_default env)"
  by (auto simp: extract_android_metadata_def)

text \<open>
  The order of the sources, as far as it holds.  When the badging tool completes with
  return code 0, the outcome is that of parsing its output, whatever the manifest is:
  a record, or the \<open>IndexError\<close> of the parser.  When the tool is missing or times
  out and the manifest parses to a root with a \<open>package\<close> attribute, the package
  name is that attribute.  When the tool is missing or times out and there is no
  manifest, package name and app name are the stem of the path and the version is
  "unknown".
\<close>

lemma extract_android_metadata_priority:
  "(aapt_badging env = Completed 0 out \<longrightarrow>
      (\<forall>m. extract_android_metadata (env\<lparr>manifest := m\<rparr>) = parse_aapt_output out))
   \<and> ((aapt_badging env = ToolNotFound \<or> aapt_badging env = ToolTimeout)
        \<and> manifest env = Parsed (Element tg attrs children)
        \<and> map_of attrs ''package'' = Some p \<longrightarrow>
      (\<exists>md. extract_android_metadata env = Inr md \<and> package_name md = p))
   \<and> ((aapt_badging env = ToolNotFound \<or> aapt_badging env = ToolTimeout)
        \<and> manifest env = Absent \<longrightarrow>
      (\<exists>md. extract_android_metadata env = Inr md \<and> package_name md = path_stem env
            \<and> app_name md = path_stem env \<and> version md = ''unknown''))"
proof (intro conjI impI allI)
  fix m
  assume "aapt_badging env = Completed 0 out"
  then show "extract_android_metadata (env\<lparr>manifest := m\<rparr>) = parse_aapt_output out"
    by (simp add: metadata_tool_success)
next
  assume a: "(aapt_badging env = ToolNotFound \<or> aapt_badging env = ToolTimeout)
        \<and> manifest env = Parsed (Element tg attrs children)
        \<and> map_of attrs ''package'' = Some p"
  then have "extract_android_metadata env = Inr (manifest_or_default env)"
    by (simp add: metadata_tool_unavailable)
  moreover have "package_name (manifest_or_default env) = p"
    using a by (simp add: manifest_or_default_def parse_manifest_def)
  ultimately show "\<exists>md. extract_android_metadata env = Inr md \<and> package_name md = p"
    by blast
next
  assume a: "(aapt_badging env = ToolNotFound \<or> aapt_badging env = ToolTimeout)
        \<and> manifest env = Absent"
  then have "extract_android_metadata env = Inr (manifest_or_default env)"
    by (simp add: metadata_tool_unavailable)
  moreover have "manifest_or_default env = default_metadata env"
    using a by (simp add: manifest_or_default_def)
  ultimately show "\<exists>md. extract_android_metadata env = Inr md \<and> package_name md = path_stem env
            \<and> app_name md = path_stem env \<and> version md = ''unknown''"
    by (simp add: default_metadata_def)
qed

lemma tool_env_badging: "aapt_badging tool_env = Completed 0 badging_output"
  by (simp add: tool_env_def bare_env_def)

lemma badging_parsed:
  "parse_aapt_output badging_output =
     Inr \<lparr>package_name = ''org.tool.app'', app_name = ''Tool App'', version = ''unknown'',
          app_category = ''unknown'', developer = None, min_sdk = None, target_sdk = None\<rparr>"
  by code_simp

lemma manifest_env_facts:
  "aapt_badging manifest_env = ToolNotFound"
  "manifest manifest_env =
     Parsed (Element ''manifest'' [(''package'', ''com.example.app'')]
       [Element ''uses-permission'' [(android_name, ''android.permission.CAMERA'')] [],
        Element ''application'' [] []])"
  "map_of [(''package'', ''com.example.app'')] ''package'' = Some ''com.example.app''"
  by (simp_all add: manifest_env_def bare_env_def example_manifest_def)

lemma bare_env_facts:
  "aapt_badging bare_env = ToolNotFound" "manifest bare_env = Absent" "path_stem bare_env = ''demo''"
  by (simp_all add: bare_env_def)

lemma extract_android_metadata_priority_examples:
  "aapt_badging tool_env = Completed 0 badging_output
   \<and> extract_android_metadata (tool_env\<lparr>manifest := Parsed example_manifest\<rparr>) =
       Inr \<lparr>package_name = ''org.tool.app'', app_name = ''Tool App'', version = ''unknown'',
            app_category = ''unknown'', developer = None, min_sdk = None, target_sdk = None\<rparr>
   \<and> aapt_badging manifest_env = ToolNotFound
   \<and> manifest manifest_env = Parsed example_manifest
   \<and> (\<exists>md. extract_android_metadata manifest_env = Inr md
          \<and> package_name md = ''com.example.app'')
   \<and> aapt_badging bare_env = ToolNotFound \<and> manifest bare_env = Absent
   \<and> (\<exists>md. extract_android_metadata bare_env = Inr md \<and> package_name md = ''demo''
          \<and> app_name md = ''demo'' \<and> version md = ''unknown'')"
proof -
  have a: "extract_android_metadata (tool_env\<lparr>manifest := Parsed example_manifest\<rparr>) =
       Inr \<lparr>package_name = ''org.tool.app'', app_name = ''Tool App'', version = ''unknown'',
            app_category = ''unknown'', developer = None, min_sdk = None, target_sdk = None\<rparr>"
    using extract_android_metadata_priority[of tool_env badging_output]
          tool_env_badging badging_parsed
    by simp
  have b: "\<exists>md. extract_android_metadata manifest_env = Inr md
          \<and> package_name md = ''com.example.app''"
    using extract_android_metadata_priority[of manifest_env _ "''manifest''"
             "[(''package'', ''com.example.app'')]"
             "[Element ''uses-permission'' [(android_name, ''android.permission.CAMERA'')] [],
               Element ''application'' [] []]" "''com.example.app''"]
          manifest_env_facts by blast
  have c: "\<exists>md. extract_android_metadata bare_env = Inr md \<and> package_name md = ''demo''
          \<and> app_name md = ''demo'' \<and> version md = ''unknown''"
    using extract_android_metadata_priority[of bare_env] bare_env_facts by simp
  show ?thesis
    using a b c tool_env_badging manifest_env_facts(1) bare_env_facts(1,2)
    by (simp add: manifest_env_def)
qed

lemma unquoted_badging_env_facts:
  "aapt_badging unquoted_badging_env = Completed 0 ''package: name=''"
  "manifest unquoted_badging_env = Parsed example_manifest"
  "path_exists unquoted_badging_env" "path_suffix unquoted_badging_env = ''.apk''"
  by (simp_all add: unquoted_badging_env_def manifest_env_def bare_env_def)

lemma unquoted_package_line: "parse_aapt_output ''package: name='' = Inl IndexError"
  by code_simp

text \<open>
  Claim C6 does not hold of the code.  With return code 0 the parsed output is returned
  only if the parser gets through the output: \<open>line.split("'")[1]\<close> and
  \<open>line.split("=")[1].split()[0]\<close> are not guarded, and the \<open>IndexError\<close> they
  raise is not among the exceptions the \<open>try\<close> around the tool run catches.  For the
  directory \<open>/apps/demo.apk\<close> with a well-formed manifest and a badging run that
  ends with return code 0 and prints \<open>package: name=\<close>, metadata extraction returns
  no record, and \<open>analyze\<close> ends in \<open>IndexError\<close>.
\<close>

theorem extract_metadata_unquoted_badging_raises:
  "aapt_badging unquoted_badging_env = Completed 0 ''package: name=''
   \<and> manifest unquoted_badging_env = Parsed example_manifest
   \<and> extract_android_metadata unquoted_badging_env = Inl IndexError
   \<and> analyze unquoted_badging_env = Inl IndexError"
  by (simp add: unquoted_badging_env_facts metadata_tool_success unquoted_package_line
        analyze_def analyze_android_def)

lemma broken_env_facts:
  "aapt_badging broken_manifest_env = ToolNotFound" "manifest broken_manifest_env = Unparsable"
  "path_stem broken_manifest_env = ''demo''" "path_exists broken_manifest_env"
  "path_suffix broken_manifest_env = ''.apk''"
  "aapt_permissions broken_manifest_env = ToolNotFound"
  by (simp_all add: broken_manifest_env_def bare_env_def)

text \<open>
  Claim C7, as the spec states it, fails: with the tool missing and a manifest that
  does not parse, the record returned for \<open>/apps/demo.apk\<close> has the package name
  "unknown", not the stem "demo".
\<close>

theorem malformed_manifest_not_stem_counterexample:
  "aapt_badging broken_manifest_env = ToolNotFound
   \<and> manifest broken_manifest_env = Unparsable
   \<and> path_stem broken_manifest_env = ''demo''
   \<and> extract_android_metadata broken_manifest_env =
       Inr \<lparr>package_name = ''unknown'', app_name = ''unknown'', version = ''unknown'',
            app_category = ''unknown'', developer = None, min_sdk = None, target_sdk = None\<rparr>
   \<and> extract_android_metadata broken_manifest_env \<noteq>
       Inr \<lparr>package_name = ''demo'', app_name = ''demo'', version = ''unknown'',
            app_category = ''unknown'', developer = None, min_sdk = None, target_sdk = None\<rparr>"
  by (simp add: broken_env_facts metadata_tool_unavailable manifest_or_default_def
        parse_manifest_def unknown_metadata_def)

text \<open>
  Claim C7, amended.  When the tool is missing or times out and the manifest exists but
  does not parse, Android metadata extraction catches the failure and returns the
  record whose package name, app name, version and category are all "unknown"; no
  error leaves the function.
\<close>

theorem malformed_manifest_unknown_record:
  "(aapt_badging env = ToolNotFound \<or> aapt_badging env = ToolTimeout)
   \<and> manifest env = Unparsable \<longrightarrow>
   extract_android_metadata env =
     Inr \<lparr>package_name = ''unknown'', app_name = ''unknown'', version = ''unknown'',
          app_category = ''unknown'', developer = None, min_sdk = None, target_sdk = None\<rparr>"
  by (auto simp: metadata_tool_unavailable manifest_or_default_def
        parse_manifest_def unknown_metadata_def)

theorem malformed_manifest_unknown_record_witness:
  "(aapt_badging broken_manifest_env = ToolNotFound
      \<or> aapt_badging broken_manifest_env = ToolTimeout)
   \<and> manifest broken_manifest_env = Unparsable
   \<and> extract_android_metadata broken_manifest_env =
     Inr \<lparr>package_name = ''unknown'', app_name = ''unknown'', version = ''unknown'',
          app_category = ''unknown'', developer = None, min_sdk = None, target_sdk = None\<rparr>"
  using malformed_manifest_unknown_record[of broken_manifest_env] broken_env_facts(1,2) by simp

section \<open>Errors that leave the analysis\<close>

text \<open>
  Claim C1 does not hold of the code.  Permission extraction parses the manifest outside
  any \<open>try\<close>: for the directory \<open>/apps/demo.apk\<close> with the tool missing and a
  malformed manifest, \<open>analyze\<close> ends in the parser's \<open>ParseError\<close>, which is
  neither NotFound nor UnsupportedFormat.
\<close>

theorem analyze_malformed_manifest_raises:
  "analyze broken_manifest_env = Inl ParseError
   \<and> ParseError \<noteq> FileNotFoundError \<and> ParseError \<noteq> ValueError"
  by (simp add: analyze_def analyze_android_def broken_env_facts metadata_tool_unavailable
        extract_android_permissions_def tool_permissions_def)

lemma tool_env_result:
  "(case analyze tool_env of
      Inl e \<Rightarrow> False
    | Inr r \<Rightarrow> map name (permissions r) = [[]])"
  by code_simp

text \<open>The manifest loop keeps every name non-empty.\<close>

lemma manifest_names_nonempty:
  assumes "\<forall>p\<in>set perms. name p \<noteq> []"
  shows "\<forall>p\<in>set (manifest_permission_elems perms es). name p \<noteq> []"
  using assms
proof (induction es arbitrary: perms)
  case Nil
  then show ?case by simp
next
  case (Cons e es)
  show ?case
  proof (cases "element_get e android_name [] = []")
    case True
    then show ?thesis using Cons.IH[OF Cons.prems] by simp
  next
    case False
    have "\<forall>p\<in>set (perms @ [classified (element_get e android_name [])]). name p \<noteq> []"
      using Cons.prems False by (simp add: classified_def)
    from Cons.IH[OF this] show ?thesis using False by (simp add: Let_def)
  qed
qed

text \<open>
  Claim C9 does not hold of the code.  The loop over the tool's permission dump appends
  without the emptiness test that the manifest loop has: a line \<open>permission:\<close> with
  nothing after the colon gives a permission whose name is the empty string.
\<close>

theorem analyze_empty_permission_name:
  "\<exists>r. analyze tool_env = Inr r \<and> map name (permissions r) = [[]]"
  using tool_env_result by (cases "analyze tool_env") auto

end
